theory Spec2Isabelle
  imports Main "HOL-Library.AList"
begin

section \<open>The tree model (package internal: Frame, Thread, Process, TimeProfile)\<close>

text \<open>
  The Go program builds its call trees out of heap objects that point at each other:
  a frame holds a pointer to its parent and a slice of pointers to its children, a
  thread a slice of frame pointers, a process a slice of thread pointers. The parsers
  mutate these objects through aliases (\<open>lastFrame\<close>, \<open>parent\<close>, \<open>currentThread\<close>), so
  the objects live in an explicit store: one arena per object type, a pointer is an
  index into its arena, and \<open>None\<close> is Go's \<open>nil\<close>.

  \<open>SelfWeightNs\<close> is an \<open>int64\<close>; it is an \<open>int\<close> here and every arithmetic
  operation on it goes through \<open>wrap64\<close>. \<open>Pid\<close> and \<open>Tid\<close> are \<open>uint64\<close>; the
  program only parses, compares and prints them, so they are naturals below \<open>2 ^ 64\<close>.
  \<open>Depth\<close> is a Go \<open>int\<close> that is only compared and decremented by one.
\<close>

type_synonym addr = nat

record Frame =
  Parent :: "addr option"
  Children :: "addr option list"
  SelfWeightNs :: int
  SymbolName :: string
  Depth :: int

record Thread =
  Thread_Name :: string
  Tid :: nat
  Frames :: "addr option list"

record Process =
  Process_Name :: string
  Pid :: nat
  Threads :: "addr option list"

record TimeProfile =
  Processes :: "addr option list"

record store =
  frames :: "Frame list"
  threads :: "Thread list"
  procs :: "Process list"

definition empty_store :: store where
  "empty_store = \<lparr>frames = [], threads = [], procs = []\<rparr>"

text \<open>Dereferencing: \<open>nil\<close> (and an index outside the arena, which Go cannot build) has no object.\<close>

definition deref :: "'a list \<Rightarrow> addr option \<Rightarrow> 'a option" where
  "deref xs p = (case p of None \<Rightarrow> None | Some a \<Rightarrow> if a < length xs then Some (xs ! a) else None)"

text \<open>
  A call either returns, panics (a nil dereference or an index out of range aborts the
  Go program), or has not finished within the fuel it was given. Fuel is only spent by
  the loops and recursions that follow pointers in the store, which Go runs for as long
  as the pointers lead somewhere.
\<close>

datatype 'a outcome = Returns 'a | Panics | OutOfFuel

text \<open>Sequencing: the second call runs only when the first one returned.\<close>

definition andThen :: "'a outcome \<Rightarrow> ('a \<Rightarrow> 'b outcome) \<Rightarrow> 'b outcome" where
  "andThen m f = (case m of Returns x \<Rightarrow> f x | Panics \<Rightarrow> Panics | OutOfFuel \<Rightarrow> OutOfFuel)"

text \<open>Reading through a pointer panics on \<open>nil\<close>.\<close>

definition load :: "'a list \<Rightarrow> addr option \<Rightarrow> 'a outcome" where
  "load xs p = (case deref xs p of None \<Rightarrow> Panics | Some x \<Rightarrow> Returns x)"

definition wrap64 :: "int \<Rightarrow> int" where
  "wrap64 x = (x + 2 ^ 63) mod 2 ^ 64 - 2 ^ 63"

definition MaxUint64 :: nat where
  "MaxUint64 = 2 ^ 64 - 1"

section \<open>Number formatting (strconv.FormatUint, the verbs %d and %x of fmt.Sprintf)\<close>

definition digit_char :: "nat \<Rightarrow> char" where
  "digit_char d = ''0123456789abcdef'' ! d"

fun format_base :: "nat \<Rightarrow> nat \<Rightarrow> string" where
  "format_base b n =
     (if b < 2 \<or> n < b then [digit_char n] else format_base b (n div b) @ [digit_char (n mod b)])"

declare format_base.simps [simp del]

definition FormatUint10 :: "nat \<Rightarrow> string" where
  "FormatUint10 n = format_base 10 n"

definition format_hex :: "nat \<Rightarrow> string" where
  "format_hex n = format_base 16 n"

section \<open>The converter (deepCopyToPprofConverter)\<close>

text \<open>
  The pprof objects \<open>profile.Function\<close>, \<open>profile.Location\<close> and \<open>profile.Sample\<close> are
  created once and never written again, so they are values. Go maps are association
  lists with one entry per key, in insertion order; \<open>len\<close> is the length. The two id
  counters are \<open>uint64\<close> in Go and naturals here: they count map entries, and a map
  with \<open>2 ^ 64\<close> entries does not fit any memory.
\<close>

record Function =
  Function_ID :: nat
  Function_Name :: string
  SystemName :: string

record Location =
  Location_ID :: nat
  Line :: "Function list"

record Sample =
  Sample_Location :: "Location list"
  Value :: "int list"
  Label :: "(string \<times> string list) list"

record location =
  pid :: nat
  tid :: nat
  methodName :: string

record Profile =
  Profile_SampleType :: "(string \<times> string) list"
  Profile_Sample :: "Sample list"
  Profile_Location :: "Location list"
  Profile_Function :: "Function list"

type_synonym ProcessAnnotationMap = "(nat \<times> string) list"

text \<open>
  The converter state. \<open>heap\<close> is the memory the input profile lives in: the Go
  converter receives pointers into it, so every method below takes the state with the
  heap inside and hands it back. \<open>stdout\<close> collects what \<open>fmt.Printf\<close> and
  \<open>fmt.Println\<close> print.
\<close>

record deepCopyToPprofConverter =
  heap :: store
  deepCopy :: TimeProfile
  excludeProcessesFromStack :: bool
  excludeThreadsFromStack :: bool
  includeThreadAndProcessIds :: bool
  annotations :: ProcessAnnotationMap
  consumedAnnotations :: ProcessAnnotationMap
  "functions" :: "(string \<times> Function) list"
  nextFunctionID :: nat
  locations :: "(location \<times> Location) list"
  nextLocationID :: nat
  samples :: "Sample list"
  stdout :: "string list"

definition newPprofConverter ::
  "store \<Rightarrow> TimeProfile \<Rightarrow> bool \<Rightarrow> bool \<Rightarrow> bool \<Rightarrow> ProcessAnnotationMap \<Rightarrow> deepCopyToPprofConverter" where
  "newPprofConverter h dc exclP exclT inclIds ann =
     \<lparr>heap = h, deepCopy = dc,
      excludeProcessesFromStack = exclP,
      excludeThreadsFromStack = exclT,
      includeThreadAndProcessIds = inclIds,
      annotations = ann,
      consumedAnnotations = [],
      functions = [],
      nextFunctionID = 1,
      locations = [],
      nextLocationID = 1,
      samples = [],
      stdout = []\<rparr>"

definition getFunction :: "string \<Rightarrow> deepCopyToPprofConverter \<Rightarrow> Function \<times> deepCopyToPprofConverter" where
  "getFunction name s =
     (case map_of (functions s) name of
        None \<Rightarrow>
          (let f = \<lparr>Function_ID = nextFunctionID s, Function_Name = name, SystemName = name\<rparr>
           in (f, s\<lparr>functions := AList.update name f (functions s),
                    nextFunctionID := nextFunctionID s + 1\<rparr>))
      | Some f \<Rightarrow> (f, s))"

text \<open>
  The three location getters end in the same lookup-or-create on the \<open>locations\<close>
  map; \<open>locationFor key name\<close> is that shared tail, with the key \<open>id\<close> as \<open>key\<close> and the
  function name \<open>name\<close> the getter computed.
\<close>

definition locationFor :: "location \<Rightarrow> string \<Rightarrow> deepCopyToPprofConverter \<Rightarrow> Location \<times> deepCopyToPprofConverter" where
  "locationFor key name s =
     (case map_of (locations s) key of
        None \<Rightarrow>
          (case getFunction name s of (f, s1) \<Rightarrow>
             (let loc = \<lparr>Location_ID = nextLocationID s, Line = [f]\<rparr>
              in (loc, s1\<lparr>locations := AList.update key loc (locations s1),
                         nextLocationID := nextLocationID s1 + 1\<rparr>)))
      | Some loc \<Rightarrow> (loc, s))"

definition getLocation ::
  "string \<Rightarrow> addr \<Rightarrow> addr \<Rightarrow> deepCopyToPprofConverter \<Rightarrow> (Location \<times> deepCopyToPprofConverter) outcome" where
  "getLocation symbolName proc th s =
     andThen (load (procs (heap s)) (Some proc)) (\<lambda>p.
     andThen (load (threads (heap s)) (Some th)) (\<lambda>t.
       Returns (locationFor \<lparr>pid = Pid p, tid = Tid t, methodName = symbolName\<rparr> symbolName s)))"

definition getThreadLocation ::
  "addr \<Rightarrow> addr \<Rightarrow> deepCopyToPprofConverter \<Rightarrow> (Location \<times> deepCopyToPprofConverter) outcome" where
  "getThreadLocation proc th s =
     andThen (load (procs (heap s)) (Some proc)) (\<lambda>p.
     andThen (load (threads (heap s)) (Some th)) (\<lambda>t.
       (let name = (if includeThreadAndProcessIds s
                    then Thread_Name t @ '' [tid: 0x'' @ format_hex (Tid t) @ '']''
                    else Thread_Name t)
        in Returns (locationFor \<lparr>pid = Pid p, tid = Tid t, methodName = name\<rparr> name s))))"

text \<open>
  \<open>annotate\<close> is the block of \<open>getProcessLocation\<close> under the comment
  ``Skip unparsable pids'': it looks the pid up in the annotation map, records the
  annotation as consumed and appends it to the name.
\<close>

definition annotate ::
  "Process \<Rightarrow> string \<Rightarrow> deepCopyToPprofConverter \<Rightarrow> string \<times> deepCopyToPprofConverter" where
  "annotate p name s =
     (if Pid p \<noteq> 0 then
        (case map_of (annotations s) (Pid p) of
           Some annotation \<Rightarrow>
             (name @ '' ['' @ annotation @ '']'',
              s\<lparr>consumedAnnotations := AList.update (Pid p) annotation (consumedAnnotations s)\<rparr>)
         | None \<Rightarrow> (name, s))
      else (name, s))"

definition getProcessLocation ::
  "addr \<Rightarrow> deepCopyToPprofConverter \<Rightarrow> (Location \<times> deepCopyToPprofConverter) outcome" where
  "getProcessLocation proc s =
     andThen (load (procs (heap s)) (Some proc)) (\<lambda>p.
       (let name = (if includeThreadAndProcessIds s
                    then Process_Name p @ '' [pid: '' @ FormatUint10 (Pid p) @ '']''
                    else Process_Name p)
        in case annotate p name s of (name1, s1) \<Rightarrow>
             Returns (locationFor \<lparr>pid = Pid p, tid = 0, methodName = Process_Name p\<rparr> name1 s1)))"

text \<open>
  The loop of \<open>convertSample\<close> that climbs from the sampled frame through the
  \<open>Parent\<close> pointers until it reaches \<open>nil\<close>.
\<close>

fun walkStack ::
  "nat \<Rightarrow> addr option \<Rightarrow> addr \<Rightarrow> addr \<Rightarrow> Location list \<Rightarrow> deepCopyToPprofConverter
    \<Rightarrow> (Location list \<times> deepCopyToPprofConverter) outcome" where
  "walkStack 0 currentFrame th proc stackTrace s = OutOfFuel"
| "walkStack (Suc n) None th proc stackTrace s = Returns (stackTrace, s)"
| "walkStack (Suc n) (Some a) th proc stackTrace s =
     andThen (load (frames (heap s)) (Some a)) (\<lambda>fr.
     andThen (getLocation (SymbolName fr) proc th s) (\<lambda>(loc, s1).
       walkStack n (Parent fr) th proc (stackTrace @ [loc]) s1))"

definition convertSample ::
  "nat \<Rightarrow> addr \<Rightarrow> addr \<Rightarrow> addr \<Rightarrow> deepCopyToPprofConverter \<Rightarrow> (Sample \<times> deepCopyToPprofConverter) outcome" where
  "convertSample fuel sample th proc s =
     andThen (walkStack fuel (Some sample) th proc [] s) (\<lambda>(st0, s0).
     andThen (if \<not> excludeThreadsFromStack s0
              then andThen (getThreadLocation proc th s0) (\<lambda>(loc, s'). Returns (st0 @ [loc], s'))
              else Returns (st0, s0)) (\<lambda>(st1, s1).
     andThen (if \<not> excludeProcessesFromStack s1
              then andThen (getProcessLocation proc s1) (\<lambda>(loc, s'). Returns (st1 @ [loc], s'))
              else Returns (st1, s1)) (\<lambda>(stackTrace, s2).
     andThen (load (frames (heap s2)) (Some sample)) (\<lambda>fr.
     andThen (load (procs (heap s2)) (Some proc)) (\<lambda>p.
     andThen (load (threads (heap s2)) (Some th)) (\<lambda>t.
       Returns (\<lparr>Sample_Location = stackTrace,
                 Value = [SelfWeightNs fr],
                 Label = [(''pid'', [FormatUint10 (Pid p)]),
                          (''tid'', [FormatUint10 (Tid t)]),
                          (''process_name'', [Process_Name p]),
                          (''thread_name'', [Thread_Name t])]\<rparr>, s2)))))))"

text \<open>
  \<open>findSamplesInFrame\<close> recurses into the children; \<open>findSamplesInFrames\<close> is its
  \<open>for _, f := range currentFrame.Children\<close> loop (and the same loop over
  \<open>th.Frames\<close> in \<open>findSamples\<close>).
\<close>

fun findSamplesInFrame ::
  "nat \<Rightarrow> addr \<Rightarrow> addr \<Rightarrow> addr option \<Rightarrow> deepCopyToPprofConverter \<Rightarrow> deepCopyToPprofConverter outcome"
and findSamplesInFrames ::
  "nat \<Rightarrow> addr \<Rightarrow> addr \<Rightarrow> addr option list \<Rightarrow> deepCopyToPprofConverter \<Rightarrow> deepCopyToPprofConverter outcome"
where
  "findSamplesInFrame 0 proc th currentFrame s = OutOfFuel"
| "findSamplesInFrame (Suc n) proc th None s = Panics"
| "findSamplesInFrame (Suc n) proc th (Some a) s =
     andThen (load (frames (heap s)) (Some a)) (\<lambda>fr.
     andThen (if SelfWeightNs fr \<noteq> 0
              then andThen (convertSample n a th proc s) (\<lambda>(smp, s1).
                     Returns (s1\<lparr>samples := samples s1 @ [smp]\<rparr>))
              else Returns s) (\<lambda>s2.
       findSamplesInFrames n proc th (Children fr) s2))"
| "findSamplesInFrames n proc th [] s = Returns s"
| "findSamplesInFrames n proc th (f # fs) s =
     andThen (findSamplesInFrame n proc th f s) (\<lambda>s1.
       findSamplesInFrames n proc th fs s1)"

definition findSamples ::
  "nat \<Rightarrow> addr \<Rightarrow> addr option \<Rightarrow> deepCopyToPprofConverter \<Rightarrow> deepCopyToPprofConverter outcome" where
  "findSamples fuel proc th s =
     (case th of None \<Rightarrow> Panics | Some ta \<Rightarrow>
        andThen (load (threads (heap s)) (Some ta)) (\<lambda>t.
          if length (Frames t) = 0 then Returns s
          else findSamplesInFrames fuel proc ta (Frames t) s))"

fun findSamplesThreads ::
  "nat \<Rightarrow> addr \<Rightarrow> addr option list \<Rightarrow> deepCopyToPprofConverter \<Rightarrow> deepCopyToPprofConverter outcome" where
  "findSamplesThreads fuel proc [] s = Returns s"
| "findSamplesThreads fuel proc (th # ths) s =
     andThen (findSamples fuel proc th s) (\<lambda>s1. findSamplesThreads fuel proc ths s1)"

fun findSamplesProcesses ::
  "nat \<Rightarrow> addr option list \<Rightarrow> deepCopyToPprofConverter \<Rightarrow> deepCopyToPprofConverter outcome" where
  "findSamplesProcesses fuel [] s = Returns s"
| "findSamplesProcesses fuel (None # ps) s = Panics"
| "findSamplesProcesses fuel (Some pa # ps) s =
     andThen (load (procs (heap s)) (Some pa)) (\<lambda>p.
     andThen (findSamplesThreads fuel pa (Threads p) s) (\<lambda>s1.
       findSamplesProcesses fuel ps s1))"

text \<open>
  The advisory of \<open>convertToPprof\<close>: one line per annotation whose pid no process
  consumed. Go ranges over the map in an unspecified order; here it is insertion order.
\<close>

fun unusedAnnotations :: "ProcessAnnotationMap \<Rightarrow> ProcessAnnotationMap \<Rightarrow> string" where
  "unusedAnnotations [] consumed = []"
| "unusedAnnotations ((p, annotation) # rest) consumed =
     (case map_of consumed p of
        None \<Rightarrow> [CHR 0x0A] @ ''  '' @ FormatUint10 p @ '': '' @ annotation
      | Some _ \<Rightarrow> []) @ unusedAnnotations rest consumed"

definition convertToPprof ::
  "nat \<Rightarrow> deepCopyToPprofConverter \<Rightarrow> (Profile \<times> deepCopyToPprofConverter) outcome" where
  "convertToPprof fuel s =
     andThen (findSamplesProcesses fuel (Processes (deepCopy s)) s) (\<lambda>s1.
       (let s2 = (if length (consumedAnnotations s1) < length (annotations s1)
                  then s1\<lparr>stdout := stdout s1 @
                         [''WARNING: Not all annotations were used. The following pids could not be found:''
                          @ unusedAnnotations (annotations s1) (consumedAnnotations s1)]\<rparr>
                  else s1)
        in Returns (\<lparr>Profile_SampleType = [(''cpu'', ''nanoseconds'')],
                     Profile_Sample = samples s2,
                     Profile_Location = map snd (locations s2),
                     Profile_Function = map snd (functions s2)\<rparr>, s2)))"

definition TimeProfileToPprof ::
  "nat \<Rightarrow> store \<Rightarrow> TimeProfile \<Rightarrow> bool \<Rightarrow> bool \<Rightarrow> bool \<Rightarrow> ProcessAnnotationMap
    \<Rightarrow> (Profile \<times> deepCopyToPprofConverter) outcome" where
  "TimeProfileToPprof fuel h dc exclP exclT inclIds ann =
     (let converter = newPprofConverter h dc exclP exclT inclIds ann;
          converter1 = (if exclP \<and> length ann > 0
                        then converter\<lparr>stdout := stdout converter @
                               [''WARNING: Combined annotations with excluding process from the stack. Annotations will be ignored.'']\<rparr>
                        else converter)
      in convertToPprof fuel converter1)"


text \<open>The profile of the converter's own test (\<open>MakeDeepCopy\<close>): one process, one thread, a root
  frame without weight and its child with self weight 1.\<close>

definition MakeDeepCopy_store :: store where
  "MakeDeepCopy_store =
     \<lparr>frames = [\<lparr>Parent = None, Children = [Some 1], SelfWeightNs = 0,
                  SymbolName = ''first_frame'', Depth = 2\<rparr>,
                \<lparr>Parent = Some 0, Children = [], SelfWeightNs = 1,
                  SymbolName = ''sub_frame'', Depth = 3\<rparr>],
      threads = [\<lparr>Thread_Name = ''thread1'', Tid = 1, Frames = [Some 0]\<rparr>],
      procs = [\<lparr>Process_Name = ''proc'', Pid = 123, Threads = [Some 0]\<rparr>]\<rparr>"

definition MakeDeepCopy :: TimeProfile where
  "MakeDeepCopy = \<lparr>Processes = [Some 0]\<rparr>"

section \<open>Auxiliary notions for the proofs\<close>

text \<open>What a call returned, if it returned.\<close>

definition returned :: "'a outcome \<Rightarrow> 'a option" where
  "returned m = (case m of Returns x \<Rightarrow> Some x | Panics \<Rightarrow> None | OutOfFuel \<Rightarrow> None)"

text \<open>The function names along the stack trace of a sample, as the converter's tests read
  them (\<open>sample.Location[i].Line[0].Function.Name\<close>).\<close>

definition stack_names :: "Sample \<Rightarrow> string list list" where
  "stack_names smp = map (map Function_Name \<circ> Line) (Sample_Location smp)"

text \<open>
  A relation between converter states is kept by the three location getters as soon as
  it is reflexive, transitive and kept by the two places where they write the state:
  the lookup-or-create of a location and the annotation of a process of the profile.
  It is kept by the whole conversion when the assignments to \<open>samples\<close> and
  \<open>stdout\<close> keep it too.
\<close>

definition lookups_ok :: "(deepCopyToPprofConverter \<Rightarrow> deepCopyToPprofConverter \<Rightarrow> bool) \<Rightarrow> bool" where
  "lookups_ok R \<longleftrightarrow>
     (\<forall>s. R s s) \<and>
     (\<forall>s s1 s2. R s s1 \<longrightarrow> R s1 s2 \<longrightarrow> R s s2) \<and>
     (\<forall>key name s. R s (snd (locationFor key name s))) \<and>
     (\<forall>p name s. p \<in> set (procs (heap s)) \<longrightarrow> R s (snd (annotate p name s)))"

definition steps_ok :: "(deepCopyToPprofConverter \<Rightarrow> deepCopyToPprofConverter \<Rightarrow> bool) \<Rightarrow> bool" where
  "steps_ok R \<longleftrightarrow>
     lookups_ok R \<and>
     (\<forall>s x. R s (s\<lparr>samples := x\<rparr>)) \<and>
     (\<forall>s x. R s (s\<lparr>stdout := x\<rparr>))"

text \<open>The input of the conversion (the memory of the profile, the profile, the options)
  is the same in both states.\<close>

definition unchanged :: "deepCopyToPprofConverter \<Rightarrow> deepCopyToPprofConverter \<Rightarrow> bool" where
  "unchanged s s' \<longleftrightarrow>
     heap s' = heap s \<and> deepCopy s' = deepCopy s \<and>
     excludeProcessesFromStack s' = excludeProcessesFromStack s \<and>
     excludeThreadsFromStack s' = excludeThreadsFromStack s \<and>
     includeThreadAndProcessIds s' = includeThreadAndProcessIds s \<and>
     annotations s' = annotations s"

text \<open>
  The \<open>locations\<close> map is well formed when every id in it is below the next id to be
  handed out and no two keys hold the same id. A later state of the same conversion
  works on the same memory and, if the map was well formed, still has every entry of
  the earlier map.
\<close>

definition loc_inv :: "deepCopyToPprofConverter \<Rightarrow> bool" where
  "loc_inv s \<longleftrightarrow>
     (\<forall>k l. map_of (locations s) k = Some l \<longrightarrow> Location_ID l < nextLocationID s) \<and>
     (\<forall>k k' l l'. map_of (locations s) k = Some l \<longrightarrow> map_of (locations s) k' = Some l' \<longrightarrow>
        Location_ID l = Location_ID l' \<longrightarrow> k = k')"

definition loc_ext :: "deepCopyToPprofConverter \<Rightarrow> deepCopyToPprofConverter \<Rightarrow> bool" where
  "loc_ext s s' \<longleftrightarrow>
     heap s' = heap s \<and>
     (loc_inv s \<longrightarrow>
        loc_inv s' \<and> (\<forall>k l. map_of (locations s) k = Some l \<longrightarrow> map_of (locations s') k = Some l))"

text \<open>A profile in the shape of the converter's test, with the names and the leaf's self
  weight left open: thread \<open>T\<close> with tid 1 under process \<open>P\<close> with pid 123, a root frame
  \<open>anc\<close> without weight and its only child \<open>leaf\<close> with self weight \<open>W\<close>.\<close>

definition single_leaf_store :: "string \<Rightarrow> string \<Rightarrow> string \<Rightarrow> string \<Rightarrow> int \<Rightarrow> store" where
  "single_leaf_store P T anc leaf W =
     \<lparr>frames = [\<lparr>Parent = None, Children = [Some 1], SelfWeightNs = 0,
                  SymbolName = anc, Depth = 2\<rparr>,
                \<lparr>Parent = Some 0, Children = [], SelfWeightNs = W,
                  SymbolName = leaf, Depth = 3\<rparr>],
      threads = [\<lparr>Thread_Name = T, Tid = 1, Frames = [Some 0]\<rparr>],
      procs = [\<lparr>Process_Name = P, Pid = 123, Threads = [Some 0]\<rparr>]\<rparr>"

text \<open>A profile as the sample parser builds them, where no thread has a tid: one process
  with three threads, the first two with tid 0 and the third with tid 5, each with one
  root frame \<open>foo\<close> of self weight 1.\<close>

definition three_threads_store :: store where
  "three_threads_store =
     \<lparr>frames = [\<lparr>Parent = None, Children = [], SelfWeightNs = 1, SymbolName = ''foo'', Depth = 1\<rparr>,
                \<lparr>Parent = None, Children = [], SelfWeightNs = 1, SymbolName = ''foo'', Depth = 1\<rparr>,
                \<lparr>Parent = None, Children = [], SelfWeightNs = 1, SymbolName = ''foo'', Depth = 1\<rparr>],
      threads = [\<lparr>Thread_Name = ''A'', Tid = 0, Frames = [Some 0]\<rparr>,
                 \<lparr>Thread_Name = ''B'', Tid = 0, Frames = [Some 1]\<rparr>,
                 \<lparr>Thread_Name = ''C'', Tid = 5, Frames = [Some 2]\<rparr>],
      procs = [\<lparr>Process_Name = ''P'', Pid = 7, Threads = [Some 0, Some 1, Some 2]\<rparr>]\<rparr>"

section \<open>Basic facts\<close>

lemma andThen_simps [simp]:
  "andThen (Returns x) f = f x"
  "andThen Panics f = Panics"
  "andThen OutOfFuel f = OutOfFuel"
  by (simp_all add: andThen_def)

lemma andThen_Returns_iff:
  "andThen m f = Returns y \<longleftrightarrow> (\<exists>x. m = Returns x \<and> f x = Returns y)"
  by (cases m) simp_all

lemma load_Returns_iff:
  "load xs p = Returns x \<longleftrightarrow> (\<exists>a. p = Some a \<and> a < length xs \<and> xs ! a = x)"
  by (auto simp: load_def deref_def split: option.splits)

lemma load_in_set: "load xs p = Returns x \<Longrightarrow> x \<in> set xs"
  by (auto simp: load_Returns_iff)

lemma lookups_ok_refl: "lookups_ok R \<Longrightarrow> R s s"
  by (simp add: lookups_ok_def)

lemma lookups_ok_trans: "lookups_ok R \<Longrightarrow> R s s1 \<Longrightarrow> R s1 s2 \<Longrightarrow> R s s2"
  unfolding lookups_ok_def by blast

lemma lookups_ok_locationFor: "lookups_ok R \<Longrightarrow> locationFor key name s = (l, s') \<Longrightarrow> R s s'"
  unfolding lookups_ok_def by (metis snd_conv)

lemma lookups_ok_annotate:
  "lookups_ok R \<Longrightarrow> p \<in> set (procs (heap s)) \<Longrightarrow> annotate p name s = (name1, s1) \<Longrightarrow> R s s1"
  unfolding lookups_ok_def by (metis snd_conv)

lemma steps_ok_lookups: "steps_ok R \<Longrightarrow> lookups_ok R"
  by (simp add: steps_ok_def)

lemma getLocation_steps: "lookups_ok R \<Longrightarrow> getLocation n p t s = Returns (l, s') \<Longrightarrow> R s s'"
  by (auto simp: getLocation_def andThen_Returns_iff dest: lookups_ok_locationFor)

lemma getThreadLocation_steps: "lookups_ok R \<Longrightarrow> getThreadLocation p t s = Returns (l, s') \<Longrightarrow> R s s'"
  by (auto simp: getThreadLocation_def Let_def andThen_Returns_iff dest: lookups_ok_locationFor)

lemma getProcessLocation_steps:
  assumes ok: "lookups_ok R" and g: "getProcessLocation p s = Returns (l, s')"
  shows "R s s'"
proof -
  from g obtain pr :: Process and name where
    pr: "load (procs (heap s)) (Some p) = Returns pr" and
    c: "(case annotate pr name s of (name1, s1) \<Rightarrow>
          Returns (locationFor \<lparr>pid = Pid pr, tid = 0, methodName = Process_Name pr\<rparr> name1 s1))
        = Returns (l, s')"
    by (auto simp: getProcessLocation_def Let_def andThen_Returns_iff)
  obtain name1 s1 where a: "annotate pr name s = (name1, s1)"
    by (cases "annotate pr name s")
  with c have l: "locationFor \<lparr>pid = Pid pr, tid = 0, methodName = Process_Name pr\<rparr> name1 s1 = (l, s')"
    by simp
  from lookups_ok_annotate [OF ok load_in_set [OF pr] a] lookups_ok_locationFor [OF ok l]
  show ?thesis by (rule lookups_ok_trans [OF ok])
qed

lemma walkStack_steps:
  assumes ok: "lookups_ok R"
  shows "walkStack fuel cf th proc st s = Returns (st', s') \<Longrightarrow> R s s'"
proof (induction fuel arbitrary: cf st s)
  case 0
  then show ?case by simp
next
  case (Suc n)
  show ?case
  proof (cases cf)
    case None
    with Suc.prems ok show ?thesis by (simp add: lookups_ok_refl)
  next
    case (Some a)
    with Suc.prems obtain fr :: Frame and loc s1 where
      g: "getLocation (SymbolName fr) proc th s = Returns (loc, s1)" and
      w: "walkStack n (Parent fr) th proc (st @ [loc]) s1 = Returns (st', s')"
      by (auto simp: andThen_Returns_iff)
    from getLocation_steps [OF ok g] Suc.IH [OF w] show ?thesis
      by (rule lookups_ok_trans [OF ok])
  qed
qed

lemma convertSample_steps:
  assumes ok: "lookups_ok R" and c: "convertSample fuel a th proc s = Returns (smp, s')"
  shows "R s s'"
proof -
  from c obtain st0 s0 st1 s1 where
    w: "walkStack fuel (Some a) th proc [] s = Returns (st0, s0)" and
    t: "(if \<not> excludeThreadsFromStack s0
         then andThen (getThreadLocation proc th s0) (\<lambda>(loc, s'). Returns (st0 @ [loc], s'))
         else Returns (st0, s0)) = Returns (st1, s1)" and
    p: "(if \<not> excludeProcessesFromStack s1
         then andThen (getProcessLocation proc s1) (\<lambda>(loc, s'). Returns (st1 @ [loc], s'))
         else Returns (st1, s1)) = Returns (Sample_Location smp, s')"
    by (auto simp: convertSample_def andThen_Returns_iff)
  have r0: "R s s0" by (rule walkStack_steps [OF ok w])
  from t have r1: "R s0 s1"
    by (auto simp: andThen_Returns_iff split: if_splits
        intro: lookups_ok_refl [OF ok] getThreadLocation_steps [OF ok])
  from p have r2: "R s1 s'"
    by (auto simp: andThen_Returns_iff split: if_splits
        intro: lookups_ok_refl [OF ok] getProcessLocation_steps [OF ok])
  from r0 r1 r2 show ?thesis by (blast intro: lookups_ok_trans [OF ok])
qed

lemma convertSample_Value:
  assumes "convertSample fuel a th proc s = Returns (smp, s')"
  shows "\<exists>fr. load (frames (heap s')) (Some a) = Returns fr \<and> Value smp = [SelfWeightNs fr]"
  using assms by (auto simp: convertSample_def andThen_Returns_iff)

lemma findSamplesInFrame_steps:
  assumes ok: "steps_ok R"
  shows "findSamplesInFrame fuel proc th cf s = Returns s' \<Longrightarrow> R s s'"
    and "findSamplesInFrames fuel proc th cfs s = Returns s' \<Longrightarrow> R s s'"
proof (induction fuel proc th cf s and fuel proc th cfs s arbitrary: s' and s'
    rule: findSamplesInFrame_findSamplesInFrames.induct)
  case (1 proc th currentFrame s)
  then show ?case by simp
next
  case (2 n proc th s)
  then show ?case by simp
next
  case (3 n proc th a s)
  note lk = steps_ok_lookups [OF ok]
  from "3.prems" obtain fr :: Frame and s2 where
    s2: "(if SelfWeightNs fr \<noteq> 0
          then andThen (convertSample n a th proc s) (\<lambda>(smp, s1).
                 Returns (s1\<lparr>samples := samples s1 @ [smp]\<rparr>))
          else Returns s) = Returns s2" and
    r: "findSamplesInFrames n proc th (Children fr) s2 = Returns s'"
    by (auto simp: andThen_Returns_iff)
  have "R s s2"
  proof (cases "SelfWeightNs fr \<noteq> 0")
    case True
    with s2 obtain smp s1 where c: "convertSample n a th proc s = Returns (smp, s1)"
      and e: "s2 = s1\<lparr>samples := samples s1 @ [smp]\<rparr>"
      by (auto simp: andThen_Returns_iff)
    from ok e have "R s1 s2" unfolding steps_ok_def by blast
    with convertSample_steps [OF lk c] show ?thesis by (rule lookups_ok_trans [OF lk])
  next
    case False
    with s2 lk show ?thesis by (simp add: lookups_ok_refl)
  qed
  moreover from "3.IH" [OF r] have "R s2 s'" .
  ultimately show ?case by (rule lookups_ok_trans [OF steps_ok_lookups [OF ok]])
next
  case (4 n proc th s)
  with ok show ?case by (simp add: lookups_ok_refl steps_ok_lookups)
next
  case (5 n proc th f fs s)
  from "5.prems" obtain s1 where a: "findSamplesInFrame n proc th f s = Returns s1"
    and b: "findSamplesInFrames n proc th fs s1 = Returns s'"
    by (auto simp: andThen_Returns_iff)
  from "5.IH"(1) [OF a] "5.IH"(2) [OF b] show ?case
    by (rule lookups_ok_trans [OF steps_ok_lookups [OF ok]])
qed

lemma findSamples_steps:
  assumes ok: "steps_ok R" and f: "findSamples fuel proc th s = Returns s'"
  shows "R s s'"
proof (cases th)
  case None
  with f show ?thesis by (simp add: findSamples_def)
next
  case (Some ta)
  with f obtain t :: Thread where
    "(if length (Frames t) = 0 then Returns s
      else findSamplesInFrames fuel proc ta (Frames t) s) = Returns s'"
    by (auto simp: findSamples_def andThen_Returns_iff)
  then show ?thesis
    by (auto split: if_splits
        intro: lookups_ok_refl [OF steps_ok_lookups [OF ok]] findSamplesInFrame_steps(2) [OF ok])
qed

lemma findSamplesThreads_steps:
  assumes ok: "steps_ok R"
  shows "findSamplesThreads fuel proc ths s = Returns s' \<Longrightarrow> R s s'"
proof (induction ths arbitrary: s)
  case Nil
  with ok show ?case by (simp add: lookups_ok_refl steps_ok_lookups)
next
  case (Cons th ths)
  from Cons.prems obtain s1 where a: "findSamples fuel proc th s = Returns s1"
    and b: "findSamplesThreads fuel proc ths s1 = Returns s'"
    by (auto simp: andThen_Returns_iff)
  from findSamples_steps [OF ok a] Cons.IH [OF b] show ?case
    by (rule lookups_ok_trans [OF steps_ok_lookups [OF ok]])
qed

lemma findSamplesProcesses_steps:
  assumes ok: "steps_ok R"
  shows "findSamplesProcesses fuel ps s = Returns s' \<Longrightarrow> R s s'"
proof (induction ps arbitrary: s)
  case Nil
  with ok show ?case by (simp add: lookups_ok_refl steps_ok_lookups)
next
  case (Cons proc ps)
  show ?case
  proof (cases proc)
    case None
    with Cons.prems show ?thesis by simp
  next
    case (Some pa)
    with Cons.prems obtain p :: Process and s1 where
      a: "findSamplesThreads fuel pa (Threads p) s = Returns s1" and
      b: "findSamplesProcesses fuel ps s1 = Returns s'"
      by (auto simp: andThen_Returns_iff)
    from findSamplesThreads_steps [OF ok a] Cons.IH [OF b] show ?thesis
      by (rule lookups_ok_trans [OF steps_ok_lookups [OF ok]])
  qed
qed

lemma convertToPprof_steps:
  assumes ok: "steps_ok R" and c: "convertToPprof fuel s = Returns (prof, s')"
  shows "R s s'"
proof -
  from c obtain s1 where
    a: "findSamplesProcesses fuel (Processes (deepCopy s)) s = Returns s1" and
    b: "s' = s1 \<or> (\<exists>x. s' = s1\<lparr>stdout := x\<rparr>)"
    by (auto simp: convertToPprof_def andThen_Returns_iff Let_def split: if_splits)
  from b ok have "R s1 s'" unfolding steps_ok_def lookups_ok_def by auto
  with findSamplesProcesses_steps [OF ok a] show ?thesis
    by (rule lookups_ok_trans [OF steps_ok_lookups [OF ok]])
qed

lemma TimeProfileToPprof_steps:
  assumes ok: "steps_ok R"
    and c: "TimeProfileToPprof fuel h dc exclP exclT inclIds ann = Returns (prof, s')"
  shows "\<exists>s. R s s' \<and>
           (s = newPprofConverter h dc exclP exclT inclIds ann \<or>
            (\<exists>x. s = (newPprofConverter h dc exclP exclT inclIds ann)\<lparr>stdout := x\<rparr>))"
proof -
  from c obtain s where
    a: "convertToPprof fuel s = Returns (prof, s')" and
    b: "s = newPprofConverter h dc exclP exclT inclIds ann \<or>
        (\<exists>x. s = (newPprofConverter h dc exclP exclT inclIds ann)\<lparr>stdout := x\<rparr>)"
    by (auto simp: TimeProfileToPprof_def Let_def split: if_splits)
  from convertToPprof_steps [OF ok a] b show ?thesis by blast
qed

lemma getFunction_unchanged: "unchanged s (snd (getFunction name s))"
  by (auto simp: getFunction_def unchanged_def Let_def split: option.splits)

lemma locationFor_unchanged: "unchanged s (snd (locationFor key name s))"
  using getFunction_unchanged [of s name]
  by (auto simp: locationFor_def unchanged_def Let_def split: option.splits prod.splits)

lemma annotate_unchanged: "unchanged s (snd (annotate p name s))"
  by (simp add: annotate_def unchanged_def split: option.splits)

lemma steps_ok_unchanged: "steps_ok unchanged"
  unfolding steps_ok_def lookups_ok_def
  using locationFor_unchanged annotate_unchanged by (auto simp: unchanged_def)

section \<open>The converter leaves its input alone\<close>

text \<open>
  Claim C10. \<open>TimeProfileToPprof\<close> never mutates its input: whatever the profile, the
  exclude/include flags and the annotation map, when the conversion returns, the memory
  holding the processes, threads and frames (names, pids, tids, self weights, depths,
  children and parent references) is what it was before the call, and so is the profile
  value itself.
\<close>

theorem TimeProfileToPprof_input_unchanged:
  assumes "TimeProfileToPprof fuel h dc exclP exclT inclIds ann = Returns (prof, s)"
  shows "heap s = h \<and> deepCopy s = dc"
  using TimeProfileToPprof_steps [OF steps_ok_unchanged assms]
  by (auto simp: unchanged_def newPprofConverter_def)

theorem TimeProfileToPprof_input_unchanged_witness:
  "\<exists>prof s. TimeProfileToPprof 10 MakeDeepCopy_store MakeDeepCopy False False True [] = Returns (prof, s)
      \<and> heap s = MakeDeepCopy_store \<and> deepCopy s = MakeDeepCopy"
proof -
  have "returned (TimeProfileToPprof 10 MakeDeepCopy_store MakeDeepCopy False False True []) \<noteq> None"
    by code_simp
  then obtain prof s where
    e: "TimeProfileToPprof 10 MakeDeepCopy_store MakeDeepCopy False False True [] = Returns (prof, s)"
    by (cases "TimeProfileToPprof 10 MakeDeepCopy_store MakeDeepCopy False False True []")
       (auto simp: returned_def)
  from TimeProfileToPprof_input_unchanged [OF e] e show ?thesis by blast
qed

end
